theory Spec2Isabelle
  imports Complex_Main "HOL-Library.AList"
begin

section \<open>Student records: the persistence and grading core of app.py\<close>

text \<open>
  The program keeps its students in a JSON file that every operation reads whole, changes
  in memory and writes whole. Python dictionaries and lists are modelled as JSON values,
  marks as real numbers (IEEE rounding, infinities and NaN are outside the model), raised
  exceptions as values of a sum type, and the file as an explicit state. Of the user
  interface only the outcome that an operation reports is kept: its messages, session
  flags and reruns are no state of the store.
\<close>

subsection \<open>Grade policy\<close>

text \<open>\<^verbatim>\<open>calculate_grade\<close> (app.py, lines 84-94): an if/elif chain over four thresholds.\<close>

definition calculate_grade :: "real \<Rightarrow> string" where
  "calculate_grade marks =
     (if marks \<ge> 90 then ''A''
      else if marks \<ge> 80 then ''B''
      else if marks \<ge> 70 then ''C''
      else if marks \<ge> 60 then ''D''
      else ''F'')"

subsection \<open>Python values and exceptions\<close>

text \<open>
  What \<^verbatim>\<open>json.load\<close> returns: \<^verbatim>\<open>None\<close>, a bool, a number, a string, a list or a
  dictionary. A dictionary keeps its insertion order, so it is an association list;
  \<^verbatim>\<open>d[k] = v\<close> is \<^const>\<open>AList.update\<close> (in place when the key is there, at the end
  otherwise) and \<^verbatim>\<open>d[k]\<close> is \<^const>\<open>map_of\<close>.
\<close>

datatype json =
    JNull
  | JBool bool
  | JNum real
  | JStr string
  | JArr "json list"
  | JObj "(string \<times> json) list"

datatype py_error = KeyError | TypeError | ValueError | AttributeError

text \<open>Sequencing of computations that may raise: the first exception ends the run.\<close>

definition then_do :: "py_error + 'a \<Rightarrow> ('a \<Rightarrow> py_error + 'b) \<Rightarrow> py_error + 'b" where
  "then_do m f = (case m of Inl e \<Rightarrow> Inl e | Inr x \<Rightarrow> f x)"

text \<open>\<^verbatim>\<open>sub in text\<close> on two strings: \<^verbatim>\<open>sub\<close> occurs in \<^verbatim>\<open>text\<close> as a contiguous run.\<close>

fun starts_with :: "string \<Rightarrow> string \<Rightarrow> bool" where
  "starts_with [] t = True"
| "starts_with (c # cs) [] = False"
| "starts_with (c # cs) (d # ds) = (c = d \<and> starts_with cs ds)"

fun occurs_in :: "string \<Rightarrow> string \<Rightarrow> bool" where
  "occurs_in sub [] = (sub = [])"
| "occurs_in sub (d # ds) = (starts_with sub (d # ds) \<or> occurs_in sub ds)"

text \<open>\<^verbatim>\<open>key in v\<close> for a string key: a key of a dictionary, an element of a list, a
  substring of a string; any other value is not a container.\<close>

definition py_in :: "string \<Rightarrow> json \<Rightarrow> py_error + bool" where
  "py_in key v =
     (case v of
        JObj d \<Rightarrow> Inr (map_of d key \<noteq> None)
      | JArr xs \<Rightarrow> Inr (List.member xs (JStr key))
      | JStr t \<Rightarrow> Inr (occurs_in key t)
      | _ \<Rightarrow> Inl TypeError)"

text \<open>\<^verbatim>\<open>v[key]\<close> for a string key: only a dictionary can be read that way.\<close>

definition py_getitem :: "json \<Rightarrow> string \<Rightarrow> py_error + json" where
  "py_getitem v key =
     (case v of
        JObj d \<Rightarrow> (case map_of d key of None \<Rightarrow> Inl KeyError | Some x \<Rightarrow> Inr x)
      | _ \<Rightarrow> Inl TypeError)"

text \<open>\<^verbatim>\<open>v[key] = x\<close>: the updated value, since the model has no mutation.\<close>

definition py_setitem :: "json \<Rightarrow> string \<Rightarrow> json \<Rightarrow> py_error + json" where
  "py_setitem v key x =
     (case v of
        JObj d \<Rightarrow> Inr (JObj (AList.update key x d))
      | _ \<Rightarrow> Inl TypeError)"


text \<open>\<^verbatim>\<open>for s in v\<close>: the elements of a list, the keys of a dictionary, the characters of
  a string.\<close>

definition py_iter :: "json \<Rightarrow> py_error + json list" where
  "py_iter v =
     (case v of
        JArr xs \<Rightarrow> Inr xs
      | JObj d \<Rightarrow> Inr (map (\<lambda>kv. JStr (fst kv)) d)
      | JStr t \<Rightarrow> Inr (map (\<lambda>c. JStr [c]) t)
      | _ \<Rightarrow> Inl TypeError)"

text \<open>\<^verbatim>\<open>v.append(x)\<close>: a method of lists only.\<close>

definition py_append :: "json \<Rightarrow> json \<Rightarrow> py_error + json" where
  "py_append v x =
     (case v of
        JArr xs \<Rightarrow> Inr (JArr (xs @ [x]))
      | _ \<Rightarrow> Inl AttributeError)"

text \<open>Truth value of a value in a condition (\<^verbatim>\<open>if not students\<close>).\<close>

definition py_truthy :: "json \<Rightarrow> bool" where
  "py_truthy v =
     (case v of
        JNull \<Rightarrow> False
      | JBool b \<Rightarrow> b
      | JNum r \<Rightarrow> r \<noteq> 0
      | JStr t \<Rightarrow> t \<noteq> []
      | JArr xs \<Rightarrow> xs \<noteq> []
      | JObj d \<Rightarrow> d \<noteq> [])"

text \<open>
  \<^verbatim>\<open>float(v)\<close>. How Python reads a number out of a string is not part of the repository:
  it is the parameter \<open>str_float\<close>, \<open>None\<close> where \<^verbatim>\<open>float\<close> raises ValueError. An integer
  too large for a float (OverflowError) is outside the model, as all rounding is.
\<close>

definition py_float :: "(string \<Rightarrow> real option) \<Rightarrow> json \<Rightarrow> py_error + real" where
  "py_float str_float v =
     (case v of
        JNum r \<Rightarrow> Inr r
      | JBool b \<Rightarrow> Inr (if b then 1 else 0)
      | JStr t \<Rightarrow> (case str_float t of None \<Rightarrow> Inl ValueError | Some r \<Rightarrow> Inr r)
      | _ \<Rightarrow> Inl TypeError)"

text \<open>\<^verbatim>\<open>x == v\<close> and the order comparisons, for a float \<open>x\<close>: a bool counts as 0 or 1,
  anything else is unequal to a number and cannot be ordered against one.\<close>

definition py_num :: "json \<Rightarrow> real option" where
  "py_num v = (case v of JNum r \<Rightarrow> Some r | JBool b \<Rightarrow> Some (if b then 1 else 0) | _ \<Rightarrow> None)"

definition py_eq_float :: "real \<Rightarrow> json \<Rightarrow> bool" where
  "py_eq_float x v = (py_num v = Some x)"


text \<open>\<^verbatim>\<open>str.strip()\<close> on the ASCII whitespace characters.\<close>

definition is_space :: "char \<Rightarrow> bool" where
  "is_space c = List.member
     [CHR 0x09, CHR 0x0A, CHR 0x0B, CHR 0x0C, CHR 0x0D, CHR 0x1C, CHR 0x1D, CHR 0x1E, CHR 0x1F, CHR 0x20] c"

definition strip :: "string \<Rightarrow> string" where
  "strip t = rev (dropWhile is_space (rev (dropWhile is_space t)))"

subsection \<open>The record store\<close>

text \<open>
  The backing file: missing, present with text that \<^verbatim>\<open>json.load\<close> rejects with
  JSONDecodeError, or present with the text of a JSON value. Writing a value and reading
  it back gives the value (\<^verbatim>\<open>json.dump\<close> then \<^verbatim>\<open>json.load\<close>); a failing write and a
  file whose bytes are not UTF-8 text are not modelled.
\<close>

datatype data_file = Absent | Unparseable | Content json

text \<open>\<^verbatim>\<open>init_data_file\<close> (lines 76-80).\<close>

definition init_data_file :: "data_file \<Rightarrow> data_file" where
  "init_data_file f = (if f = Absent then Content (JArr []) else f)"

text \<open>\<^verbatim>\<open>save_students\<close> (lines 131-133).\<close>

definition save_students :: "json \<Rightarrow> data_file \<Rightarrow> data_file" where
  "save_students students f = Content students"

text \<open>
  The body of the backfill loop of \<^verbatim>\<open>load_students\<close> (lines 110-122) on one element
  \<open>s\<close>: the element as the body leaves it, and whether the body set \<^verbatim>\<open>rerecord\<close>.
  The \<^verbatim>\<open>try\<close> block catches ValueError and TypeError only, and its handler can raise
  again.
\<close>

definition backfill_grade :: "(string \<Rightarrow> real option) \<Rightarrow> json \<Rightarrow> py_error + json" where
  "backfill_grade str_float s =
     (case then_do (py_getitem s ''marks'') (\<lambda>mv.
           then_do (py_float str_float mv) (\<lambda>x.
           py_setitem s ''grade'' (JStr (calculate_grade x)))) of
        Inr s' \<Rightarrow> Inr s'
      | Inl e \<Rightarrow>
          if e = ValueError \<or> e = TypeError then py_setitem s ''grade'' (JStr ''F'')
          else Inl e)"

definition backfill_record :: "(string \<Rightarrow> real option) \<Rightarrow> json \<Rightarrow> py_error + json \<times> bool" where
  "backfill_record str_float s =
     then_do (py_in ''grade'' s) (\<lambda>has_grade.
     then_do (if has_grade then Inr False else py_in ''marks'' s) (\<lambda>fill_grade.
     then_do (if fill_grade then then_do (backfill_grade str_float s) (\<lambda>s'. Inr (s', True))
              else Inr (s, False)) (\<lambda>(s1, r1).
     then_do (py_in ''registered_courses'' s1) (\<lambda>has_courses.
     if has_courses then Inr (s1, r1)
     else then_do (py_setitem s1 ''registered_courses'' (JArr [])) (\<lambda>s2. Inr (s2, True))))))"

fun backfill_loop ::
  "(string \<Rightarrow> real option) \<Rightarrow> json list \<Rightarrow> bool \<Rightarrow> py_error + json list \<times> bool" where
  "backfill_loop str_float [] rerecord = Inr ([], rerecord)"
| "backfill_loop str_float (s # rest) rerecord =
     then_do (backfill_record str_float s) (\<lambda>(s', r).
     then_do (backfill_loop str_float rest (rerecord \<or> r)) (\<lambda>(rest', r').
     Inr (s' # rest', r')))"

text \<open>
  \<^verbatim>\<open>load_students\<close> (lines 98-128): the file after the call, and the value returned or
  the exception raised. Only the elements of a list are changed by the loop: the keys of
  a dictionary and the characters of a string are strings, which cannot be assigned to.
\<close>

definition load_students :: "(string \<Rightarrow> real option) \<Rightarrow> data_file \<Rightarrow> data_file \<times> (py_error + json)" where
  "load_students str_float f =
     (let f1 = init_data_file f;
          students = (case f1 of Content v \<Rightarrow> v | _ \<Rightarrow> JArr [])
      in case then_do (py_iter students) (\<lambda>elems. backfill_loop str_float elems False) of
           Inl e \<Rightarrow> (f1, Inl e)
         | Inr (elems', rerecord) \<Rightarrow>
             (let students' = (case students of JArr _ \<Rightarrow> JArr elems' | _ \<Rightarrow> students)
              in (if rerecord then save_students students' f1 else f1, Inr students')))"


subsection \<open>Adding a student\<close>

text \<open>
  The duplicate check of \<^verbatim>\<open>add_student\<close> (lines 1488-1491), also the search
  \<^verbatim>\<open>next((s for s in students if s["roll_no"] == roll_no), None)\<close> of
  \<^verbatim>\<open>update_student_marks\<close>: the first element whose roll number is the string
  \<open>r\<close>, with its position. Reading \<^verbatim>\<open>s["roll_no"]\<close> raises on an element without it.
\<close>

fun find_roll_no :: "json list \<Rightarrow> string \<Rightarrow> py_error + (nat \<times> json) option" where
  "find_roll_no [] r = Inr None"
| "find_roll_no (s # rest) r =
     then_do (py_getitem s ''roll_no'') (\<lambda>v.
     if v = JStr r then Inr (Some (0, s))
     else then_do (find_roll_no rest r) (\<lambda>res.
          Inr (map_option (\<lambda>(i, s'). (Suc i, s')) res)))"



subsection \<open>Bulk import\<close>

text \<open>
  A row of the table that pandas read from the uploaded file, as \<^verbatim>\<open>upload_file\<close> uses
  it: its index label, the text \<^verbatim>\<open>str\<close> gives for the name and roll number cells
  (\<open>None\<close> for a missing cell), and the marks cell after
  \<^verbatim>\<open>pd.to_numeric(errors='coerce')\<close> (\<open>None\<close> for a missing or non-numeric cell).
\<close>

record row =
  idx :: nat
  cell_name :: "string option"
  cell_roll_no :: "string option"
  cell_marks :: "real option"

text \<open>The upload: none, a file of another type, a file pandas cannot read, or the
  table read, with its column names.\<close>

datatype uploaded = NoFile | OtherExtension | ReadFailure | Frame "string list" "row list"

text \<open>A row that passed the cleaning (lines 1531-1546), with its grade column.\<close>

record valid_row =
  v_idx :: nat
  v_name :: string
  v_roll_no :: string
  v_marks :: real
  v_grade :: string

text \<open>Rows with a missing cell or marks that are no number in [0, 100] are dropped.\<close>

fun clean_rows :: "row list \<Rightarrow> valid_row list" where
  "clean_rows [] = []"
| "clean_rows (r # rest) =
     (case (cell_name r, cell_roll_no r, cell_marks r) of
        (Some n, Some rn, Some m) \<Rightarrow>
          if 0 \<le> m \<and> m \<le> 100
          then \<lparr>v_idx = idx r, v_name = n, v_roll_no = rn, v_marks = m,
                 v_grade = calculate_grade m\<rparr> # clean_rows rest
          else clean_rows rest
      | _ \<Rightarrow> clean_rows rest)"

text \<open>\<^verbatim>\<open>{s["roll_no"] for s in existing_students}\<close> (line 1552): the roll numbers, which
  must be hashable.\<close>

fun roll_no_set :: "json list \<Rightarrow> py_error + json list" where
  "roll_no_set [] = Inr []"
| "roll_no_set (s # rest) =
     then_do (py_getitem s ''roll_no'') (\<lambda>v.
     case v of
       JArr xs \<Rightarrow> Inl TypeError
     | JObj d \<Rightarrow> Inl TypeError
     | _ \<Rightarrow> then_do (roll_no_set rest) (\<lambda>vs. Inr (v # vs)))"

text \<open>
  The import loop (lines 1559-1575). \<^verbatim>\<open>existing_rolls\<close> is the set computed before the
  loop; the loop does not add to it. A failing \<^verbatim>\<open>append\<close> is caught and recorded with
  the row's line number.
\<close>

fun import_rows ::
  "valid_row list \<Rightarrow> json list \<Rightarrow> json \<Rightarrow> nat \<Rightarrow> nat \<Rightarrow> nat list
     \<Rightarrow> json \<times> nat \<times> nat \<times> nat list" where
  "import_rows [] existing_rolls students added skipped errors =
     (students, added, skipped, errors)"
| "import_rows (r # rest) existing_rolls students added skipped errors =
     (let roll_no = strip (v_roll_no r)
      in if List.member existing_rolls (JStr roll_no)
         then import_rows rest existing_rolls students added (skipped + 1) errors
         else
           (case py_append students
                   (JObj [(''name'', JStr (strip (v_name r))),
                          (''roll_no'', JStr roll_no),
                          (''marks'', JNum (v_marks r)),
                          (''grade'', JStr (v_grade r))]) of
              Inr students' \<Rightarrow>
                import_rows rest existing_rolls students' (added + 1) skipped errors
            | Inl e \<Rightarrow>
                import_rows rest existing_rolls students added skipped
                  (errors @ [v_idx r + 2])))"

text \<open>What \<^verbatim>\<open>upload_file\<close> shows: nothing, one of its error or warning messages, or the
  counts of added and skipped rows; the last two come with the rows that failed.\<close>

datatype upload_outcome =
    Ignored
  | UnsupportedType
  | ReadFailed
  | MissingColumns
  | NoValidRecords
  | Processed nat nat "nat list"
  | NoNewStudents "nat list"

text \<open>\<^verbatim>\<open>upload_file\<close> (lines 1508-1590).\<close>

definition upload_file ::
  "(string \<Rightarrow> real option) \<Rightarrow> uploaded \<Rightarrow> data_file
     \<Rightarrow> data_file \<times> (py_error + upload_outcome)" where
  "upload_file str_float up f =
     (case up of
        NoFile \<Rightarrow> (f, Inr Ignored)
      | OtherExtension \<Rightarrow> (f, Inr UnsupportedType)
      | ReadFailure \<Rightarrow> (f, Inr ReadFailed)
      | Frame columns rows \<Rightarrow>
          if \<not> (List.member columns ''name'' \<and> List.member columns ''roll_no''
                 \<and> List.member columns ''marks'')
          then (f, Inr MissingColumns)
          else
            (let df = clean_rows rows
             in if df = [] then (f, Inr NoValidRecords)
                else
                  (case load_students str_float f of
                     (f1, Inl e) \<Rightarrow> (f1, Inl e)
                   | (f1, Inr existing_students) \<Rightarrow>
                       (case then_do (py_iter existing_students) roll_no_set of
                          Inl e \<Rightarrow> (f1, Inl e)
                        | Inr existing_rolls \<Rightarrow>
                            (case import_rows df existing_rolls existing_students 0 0 [] of
                               (students', added, skipped, errors) \<Rightarrow>
                                 if added > 0
                                 then (save_students students' f1,
                                       Inr (Processed added skipped errors))
                                 else (f1, Inr (NoNewStudents errors)))))))"

subsection \<open>Updating marks\<close>

text \<open>
  The pages of the application are Streamlit functions: they draw their widgets and run
  the code under a button when it was pressed. A page is modelled on the run in which its
  button was pressed, with the values of its widgets as arguments; what the page only
  draws is left out, and so are the checks the widgets make on their own values.

  \<^verbatim>\<open>{f"{s['roll_no']} - {s['name']}": ... for s in students}\<close>, the options of the
  student select boxes: every element must have a roll number and a name.
\<close>

fun student_options :: "json list \<Rightarrow> py_error + (json \<times> json) list" where
  "student_options [] = Inr []"
| "student_options (s # rest) =
     then_do (py_getitem s ''roll_no'') (\<lambda>r.
     then_do (py_getitem s ''name'') (\<lambda>n.
     then_do (student_options rest) (\<lambda>opts. Inr ((r, n) # opts))))"

datatype update_outcome = NoStudentsToUpdate | NoneSelected | MarksUpdated | MarksUnchanged

text \<open>
  \<^verbatim>\<open>update_student_marks\<close> (lines 1665-1708) with the button pressed. \<open>roll_no\<close> is the
  roll number that the chosen option stands for, a string; \<open>new_marks\<close> is the value of
  the number input. The student changed is the first one with that roll number.
\<close>

definition update_student_marks ::
  "(string \<Rightarrow> real option) \<Rightarrow> string \<Rightarrow> real \<Rightarrow> data_file
     \<Rightarrow> data_file \<times> (py_error + update_outcome)" where
  "update_student_marks str_float roll_no new_marks f =
     (case load_students str_float f of
        (f1, Inl e) \<Rightarrow> (f1, Inl e)
      | (f1, Inr students) \<Rightarrow>
          if \<not> py_truthy students then (f1, Inr NoStudentsToUpdate)
          else
            (case then_do (py_iter students) (\<lambda>elems.
                  then_do (student_options elems) (\<lambda>opts.
                  then_do (find_roll_no elems roll_no) (\<lambda>found. Inr (elems, found)))) of
               Inl e \<Rightarrow> (f1, Inl e)
             | Inr (elems, None) \<Rightarrow> (f1, Inr NoneSelected)
             | Inr (elems, Some (i, current_student)) \<Rightarrow>
                 if \<not> py_truthy current_student then (f1, Inr NoneSelected)
                 else
                   (case then_do (py_getitem current_student ''marks'') (\<lambda>current_marks.
                         then_do (py_getitem current_student ''grade'') (\<lambda>current_grade.
                         then_do (py_getitem current_student ''name'') (\<lambda>n.
                         then_do (py_float str_float current_marks) (\<lambda>shown.
                         if \<not> py_eq_float new_marks current_marks
                         then then_do (py_setitem current_student ''marks'' (JNum new_marks)) (\<lambda>s1.
                              then_do (py_setitem s1 ''grade'' (JStr (calculate_grade new_marks)))
                                (\<lambda>s2. Inr (Some s2)))
                         else Inr None)))) of
                      Inl e \<Rightarrow> (f1, Inl e)
                    | Inr None \<Rightarrow> (f1, Inr MarksUnchanged)
                    | Inr (Some s2) \<Rightarrow>
                        (save_students (JArr (elems[i := s2])) f1, Inr MarksUpdated))))"

subsection \<open>Grade management\<close>















subsection \<open>Course registration\<close>







subsection \<open>Attendance\<close>

text \<open>\<^verbatim>\<open>next((r for r in records if r["date"] == date), None)\<close> (line 480): the first
  record of that date, with its position.\<close>

fun find_date :: "json list \<Rightarrow> string \<Rightarrow> py_error + (nat \<times> json) option" where
  "find_date [] date = Inr None"
| "find_date (r # rest) date =
     then_do (py_getitem r ''date'') (\<lambda>v.
     if v = JStr date then Inr (Some (0, r))
     else then_do (find_date rest date) (\<lambda>res.
          Inr (map_option (\<lambda>(i, r'). (Suc i, r')) res)))"

text \<open>
  The second half of \<^verbatim>\<open>mark_attendance\<close> (lines 479-490), on the value
  \<^verbatim>\<open>student["attendance"][course_id]\<close>: the record found is overwritten where it is,
  otherwise a record is appended. \<open>now\<close> is the text of
  \<^verbatim>\<open>pd.Timestamp.now().strftime("%H:%M:%S")\<close>.
\<close>

definition upsert_attendance :: "json \<Rightarrow> string \<Rightarrow> string \<Rightarrow> string \<Rightarrow> py_error + json" where
  "upsert_attendance records date status now =
     then_do (py_iter records) (\<lambda>rs.
     then_do (find_date rs date) (\<lambda>existing_record.
     case existing_record of
       Some (i, r) \<Rightarrow>
         if py_truthy r
         then then_do (py_setitem r ''status'' (JStr status)) (\<lambda>r1.
              then_do (py_setitem r1 ''time'' (JStr now)) (\<lambda>r2.
              Inr (JArr (rs[i := r2]))))
         else py_append records
                (JObj [(''date'', JStr date), (''status'', JStr status), (''time'', JStr now)])
     | None \<Rightarrow>
         py_append records
           (JObj [(''date'', JStr date), (''status'', JStr status), (''time'', JStr now)])))"

text \<open>
  \<^verbatim>\<open>mark_attendance\<close> (lines 471-490): the student dictionary as the call leaves it.
  The function changes the dictionary it is given and saves nothing.
\<close>

definition mark_attendance ::
  "json \<Rightarrow> string \<Rightarrow> string \<Rightarrow> string \<Rightarrow> string \<Rightarrow> py_error + json" where
  "mark_attendance student course_id date status now =
     then_do (py_in ''attendance'' student) (\<lambda>has_attendance.
     then_do (if has_attendance then Inr student
              else py_setitem student ''attendance'' (JObj [])) (\<lambda>s1.
     then_do (py_getitem s1 ''attendance'') (\<lambda>att.
     then_do (py_in course_id att) (\<lambda>has_course.
     then_do (if has_course then Inr att else py_setitem att course_id (JArr [])) (\<lambda>att1.
     then_do (py_getitem att1 course_id) (\<lambda>records.
     then_do (upsert_attendance records date status now) (\<lambda>records'.
     then_do (py_setitem att1 course_id records') (\<lambda>att2.
     py_setitem s1 ''attendance'' att2))))))))"

subsection \<open>Observations used in the statements\<close>

text \<open>The stored collection: the elements of the array in the file, nothing when the
  file is missing or does not hold an array.\<close>

definition stored_students :: "data_file \<Rightarrow> json list" where
  "stored_students f = (case f of Content (JArr xs) \<Rightarrow> xs | _ \<Rightarrow> [])"

text \<open>The roll number of every element, \<open>None\<close> for an element that has none.\<close>

definition roll_nos :: "json list \<Rightarrow> json option list" where
  "roll_nos students =
     map (\<lambda>s. case py_getitem s ''roll_no'' of Inr v \<Rightarrow> Some v | Inl e \<Rightarrow> None) students"



text \<open>The attendance entries of a student for a course (none when the student has no
  attendance for it), and those of them that carry a given date.\<close>

definition attendance_entries :: "json \<Rightarrow> string \<Rightarrow> json list" where
  "attendance_entries student course_id =
     (case py_getitem student ''attendance'' of
        Inr att \<Rightarrow> (case py_getitem att course_id of Inr (JArr rs) \<Rightarrow> rs | _ \<Rightarrow> [])
      | Inl e \<Rightarrow> [])"

definition entries_on :: "string \<Rightarrow> json list \<Rightarrow> json list" where
  "entries_on date rs = filter (\<lambda>r. py_getitem r ''date'' = Inr (JStr date)) rs"

text \<open>
  A student as the data model has it, as far as attendance for one course goes: a
  dictionary whose attendance, when present, is a dictionary, whose entry for the course,
  when present, is a list of dictionaries that each have a date.
\<close>

definition is_entry :: "json \<Rightarrow> bool" where
  "is_entry r = (case r of JObj e \<Rightarrow> map_of e ''date'' \<noteq> None | _ \<Rightarrow> False)"

definition attendance_ok :: "json \<Rightarrow> string \<Rightarrow> bool" where
  "attendance_ok student course_id =
     (case student of
        JObj d \<Rightarrow>
          (case map_of d ''attendance'' of
             None \<Rightarrow> True
           | Some (JObj a) \<Rightarrow>
               (case map_of a course_id of
                  None \<Rightarrow> True
                | Some (JArr rs) \<Rightarrow> list_all is_entry rs
                | Some other \<Rightarrow> False)
           | Some other \<Rightarrow> False)
      | _ \<Rightarrow> False)"

text \<open>
  The upsert as the specification words it: if an entry for that exact date exists, its
  status and time are overwritten (the first such entry, where it stands); otherwise a
  new entry is appended.
\<close>

fun upsert_spec :: "json list \<Rightarrow> string \<Rightarrow> string \<Rightarrow> string \<Rightarrow> json list" where
  "upsert_spec [] date status now =
     [JObj [(''date'', JStr date), (''status'', JStr status), (''time'', JStr now)]]"
| "upsert_spec (r # rs) date status now =
     (if py_getitem r ''date'' = Inr (JStr date)
      then (case r of
              JObj e \<Rightarrow>
                JObj (AList.update ''time'' (JStr now) (AList.update ''status'' (JStr status) e))
            | _ \<Rightarrow> r) # rs
      else r # upsert_spec rs date status now)"






















section \<open>Properties\<close>

subsection \<open>Grade policy\<close>

text \<open>
  C3. For every numeric marks value, calculate_grade returns "A" exactly when marks is at
  least 90, "B" exactly when marks is in [80, 90), "C" exactly when in [70, 80), "D" exactly
  when in [60, 70) and "F" exactly when marks is below 60. The boundaries are exact:
  the grade of 90 is "A". As a HOL function it is total and deterministic and has no
  state to change.
\<close>

theorem calculate_grade_thresholds:
  "(calculate_grade m = ''A'' \<longleftrightarrow> m \<ge> 90) \<and>
   (calculate_grade m = ''B'' \<longleftrightarrow> 80 \<le> m \<and> m < 90) \<and>
   (calculate_grade m = ''C'' \<longleftrightarrow> 70 \<le> m \<and> m < 80) \<and>
   (calculate_grade m = ''D'' \<longleftrightarrow> 60 \<le> m \<and> m < 70) \<and>
   (calculate_grade m = ''F'' \<longleftrightarrow> m < 60) \<and>
   calculate_grade 90 = ''A''"
  by (simp add: calculate_grade_def)

subsection \<open>Loading\<close>











subsection \<open>Adding a student\<close>


lemma find_roll_no_dicts_some:
  "\<forall>d\<in>set ds. map_of d ''roll_no'' \<noteq> None \<Longrightarrow>
   \<exists>d\<in>set ds. map_of d ''roll_no'' = Some (JStr r) \<Longrightarrow>
   \<exists>i. i < length ds \<and> find_roll_no (map JObj ds) r = Inr (Some (i, JObj (ds ! i)))
        \<and> map_of (ds ! i) ''roll_no'' = Some (JStr r)
        \<and> (\<forall>j<i. map_of (ds ! j) ''roll_no'' \<noteq> Some (JStr r))"
proof (induction ds)
  case Nil
  then show ?case by simp
next
  case (Cons d ds)
  show ?case
  proof (cases "map_of d ''roll_no'' = Some (JStr r)")
    case True
    then have "find_roll_no (map JObj (d # ds)) r = Inr (Some (0, JObj d))"
      by (simp add: then_do_def py_getitem_def)
    with True show ?thesis by (intro exI[of _ 0]) simp
  next
    case False
    with Cons.prems obtain v where v: "map_of d ''roll_no'' = Some v" "v \<noteq> JStr r" by auto
    from False Cons.prems have "\<exists>d\<in>set ds. map_of d ''roll_no'' = Some (JStr r)" by auto
    with Cons.IH Cons.prems obtain i where i: "i < length ds"
      "find_roll_no (map JObj ds) r = Inr (Some (i, JObj (ds ! i)))"
      "map_of (ds ! i) ''roll_no'' = Some (JStr r)"
      "\<forall>j<i. map_of (ds ! j) ''roll_no'' \<noteq> Some (JStr r)" by auto
    have "find_roll_no (map JObj (d # ds)) r = Inr (Some (Suc i, JObj ((d # ds) ! Suc i)))"
      using v i(2) by (simp add: then_do_def py_getitem_def)
    moreover have "\<forall>j<Suc i. map_of ((d # ds) ! j) ''roll_no'' \<noteq> Some (JStr r)"
      using i(4) False by (auto simp: nth_Cons split: nat.splits)
    ultimately show ?thesis using i(1,3) by (intro exI[of _ "Suc i"]) simp
  qed
qed




subsection \<open>Bulk import\<close>

text \<open>
  C2. The claim does not hold of the code: the batch of the claim, imported into an empty
  store, adds both rows and reports no skipped row, since the set of known roll numbers
  is computed before the loop and never extended.
\<close>

theorem upload_file_same_batch_duplicate:
  "upload_file sf (Frame [''name'', ''roll_no'', ''marks'']
     [\<lparr>idx = 0, cell_name = Some ''A'', cell_roll_no = Some ''1'', cell_marks = Some 85\<rparr>,
      \<lparr>idx = 1, cell_name = Some ''B'', cell_roll_no = Some ''1'', cell_marks = Some 50\<rparr>])
     (Content (JArr [])) =
   (Content (JArr [JObj [(''name'', JStr ''A''), (''roll_no'', JStr ''1''),
                         (''marks'', JNum 85), (''grade'', JStr ''B'')],
                   JObj [(''name'', JStr ''B''), (''roll_no'', JStr ''1''),
                         (''marks'', JNum 50), (''grade'', JStr ''F'')]]),
    Inr (Processed 2 0 []))"
  by (simp add: upload_file_def load_students_def init_data_file_def py_iter_def then_do_def
      Let_def py_append_def save_students_def calculate_grade_def strip_def is_space_def)

text \<open>
  C1. The claim does not hold of the code, by the same defect: a store with the single
  roll number S1 has pairwise distinct roll numbers, and importing two rows that both
  carry S2 leaves a store in which S2 occurs twice.
\<close>

theorem upload_file_breaks_distinct_roll_nos:
  "distinct (roll_nos (stored_students
     (Content (JArr [JObj [(''name'', JStr ''A''), (''roll_no'', JStr ''S1''),
                           (''marks'', JNum 85), (''grade'', JStr ''B''),
                           (''registered_courses'', JArr [])]])))) \<and>
   \<not> distinct (roll_nos (stored_students (fst
     (upload_file sf (Frame [''name'', ''roll_no'', ''marks'']
        [\<lparr>idx = 0, cell_name = Some ''B'', cell_roll_no = Some ''S2'', cell_marks = Some 70\<rparr>,
         \<lparr>idx = 1, cell_name = Some ''C'', cell_roll_no = Some ''S2'', cell_marks = Some 95\<rparr>])
        (Content (JArr [JObj [(''name'', JStr ''A''), (''roll_no'', JStr ''S1''),
                              (''marks'', JNum 85), (''grade'', JStr ''B''),
                              (''registered_courses'', JArr [])]]))))))"
  by (simp add: upload_file_def load_students_def init_data_file_def py_iter_def then_do_def
      Let_def py_append_def save_students_def calculate_grade_def strip_def is_space_def
      backfill_record_def py_in_def py_getitem_def stored_students_def roll_nos_def)


subsection \<open>Attendance\<close>

lemma find_date_upsert:
  "list_all is_entry rs \<Longrightarrow>
   (case find_date rs date of
      Inl e \<Rightarrow> False
    | Inr None \<Rightarrow> upsert_spec rs date status now =
         rs @ [JObj [(''date'', JStr date), (''status'', JStr status), (''time'', JStr now)]]
    | Inr (Some (i, r)) \<Rightarrow> i < length rs \<and>
        (\<exists>e. r = JObj e \<and> e \<noteq> [] \<and> upsert_spec rs date status now =
           rs[i := JObj (AList.update ''time'' (JStr now) (AList.update ''status'' (JStr status) e))]))"
proof (induction rs)
  case Nil
  then show ?case by simp
next
  case (Cons r rs)
  from Cons.prems obtain e v where r: "r = JObj e" "map_of e ''date'' = Some v"
    by (auto simp: is_entry_def split: json.splits)
  then have ne: "e \<noteq> []" by auto
  show ?case
  proof (cases "v = JStr date")
    case True
    with r ne show ?thesis by (simp add: then_do_def py_getitem_def)
  next
    case False
    from Cons have IH: "case find_date rs date of
      Inl e \<Rightarrow> False
    | Inr None \<Rightarrow> upsert_spec rs date status now =
         rs @ [JObj [(''date'', JStr date), (''status'', JStr status), (''time'', JStr now)]]
    | Inr (Some (i, r)) \<Rightarrow> i < length rs \<and>
        (\<exists>e. r = JObj e \<and> e \<noteq> [] \<and> upsert_spec rs date status now =
           rs[i := JObj (AList.update ''time'' (JStr now) (AList.update ''status'' (JStr status) e))])"
      by simp
    with False r show ?thesis
      by (auto simp: then_do_def py_getitem_def split: sum.splits option.splits)
  qed
qed

lemma upsert_attendance_spec:
  assumes "list_all is_entry rs"
  shows "upsert_attendance (JArr rs) date status now = Inr (JArr (upsert_spec rs date status now))"
  using find_date_upsert[OF assms, of date status now]
  by (auto simp: upsert_attendance_def py_iter_def then_do_def py_truthy_def py_setitem_def
      py_append_def split: sum.splits option.splits)

lemma upsert_spec_none:
  "entries_on date rs = [] \<Longrightarrow> upsert_spec rs date status now =
     rs @ [JObj [(''date'', JStr date), (''status'', JStr status), (''time'', JStr now)]]"
  by (induction rs) (auto simp: entries_on_def split: if_splits)

lemma upsert_spec_length:
  "entries_on date rs \<noteq> [] \<Longrightarrow> length (upsert_spec rs date status now) = length rs"
  by (induction rs) (auto simp: entries_on_def split: if_splits)

lemma upsert_spec_is_entry:
  "list_all is_entry rs \<Longrightarrow> list_all is_entry (upsert_spec rs date status now)"
  by (induction rs) (auto simp: is_entry_def update_conv' split: json.splits)

lemma upsert_spec_entries_on:
  "list_all is_entry rs \<Longrightarrow>
   entries_on date (upsert_spec rs date status now) =
     (case entries_on date rs of
        [] \<Rightarrow> [JObj [(''date'', JStr date), (''status'', JStr status), (''time'', JStr now)]]
      | r # rest \<Rightarrow>
          (case r of JObj e \<Rightarrow>
              JObj (AList.update ''time'' (JStr now) (AList.update ''status'' (JStr status) e))
           | _ \<Rightarrow> r) # rest)"
proof (induction rs)
  case Nil
  then show ?case by (simp add: entries_on_def py_getitem_def)
next
  case (Cons r rs)
  then show ?case
    by (auto simp: entries_on_def py_getitem_def is_entry_def update_conv'
        split: json.splits list.splits option.splits)
qed

lemma upsert_spec_other_dates:
  "filter (\<lambda>r. py_getitem r ''date'' \<noteq> Inr (JStr date)) (upsert_spec rs date status now) =
   filter (\<lambda>r. py_getitem r ''date'' \<noteq> Inr (JStr date)) rs"
proof (induction rs)
  case Nil
  then show ?case by (simp add: py_getitem_def)
next
  case (Cons r rs)
  then show ?case
    by (auto simp: py_getitem_def update_conv' split: json.splits option.splits)
qed


lemma mark_attendance_entries:
  assumes "attendance_ok student c"
  shows "\<exists>s'. mark_attendance student c date status now = Inr s' \<and> attendance_ok s' c \<and>
     attendance_entries s' c = upsert_spec (attendance_entries student c) date status now"
proof -
  from assms obtain d where d: "student = JObj d"
    by (auto simp: attendance_ok_def split: json.splits)
  show ?thesis
  proof (cases "map_of d ''attendance''")
    case None
    with d show ?thesis
      by (simp add: mark_attendance_def upsert_attendance_def then_do_def py_in_def
          py_setitem_def py_getitem_def py_iter_def py_append_def update_conv'
          attendance_ok_def attendance_entries_def is_entry_def)
  next
    case (Some att)
    with assms d obtain a where a: "att = JObj a"
      by (auto simp: attendance_ok_def split: json.splits)
    show ?thesis
    proof (cases "map_of a c")
      case None
      with d Some a show ?thesis
        by (simp add: mark_attendance_def upsert_attendance_def then_do_def py_in_def
            py_setitem_def py_getitem_def py_iter_def py_append_def update_conv'
            attendance_ok_def attendance_entries_def is_entry_def)
    next
      case (Some records)
      with assms d \<open>map_of d ''attendance'' = Some att\<close> a obtain rs where
        rs: "records = JArr rs" "list_all is_entry rs"
        by (auto simp: attendance_ok_def split: json.splits)
      from d \<open>map_of d ''attendance'' = Some att\<close> a Some rs show ?thesis
        by (simp add: mark_attendance_def upsert_attendance_spec upsert_spec_is_entry
            then_do_def py_in_def py_setitem_def py_getitem_def update_conv'
            attendance_ok_def attendance_entries_def)
    qed
  qed
qed

text \<open>
  C7. For a student whose attendance is shaped as the data model says, \<^verbatim>\<open>mark_attendance\<close>
  returns, and the entries of the course after the call are the upsert of the entries
  before it: when no entry of that exact date exists a new entry is appended, otherwise
  the existing entry's status and time are overwritten in place and no entry is added.
  Two calls for the same course and date, with any two statuses, leave the list as long
  as the first call left it; and when the student had at most one entry of that date
  (the data model's invariant), exactly one entry of that date remains, holding the
  second call's status and time.
\<close>

theorem mark_attendance_upsert:
  assumes ok: "attendance_ok student c"
  shows "\<exists>s1 s2.
     mark_attendance student c date st1 t1 = Inr s1 \<and>
     mark_attendance s1 c date st2 t2 = Inr s2 \<and>
     attendance_entries s1 c = upsert_spec (attendance_entries student c) date st1 t1 \<and>
     attendance_entries s2 c = upsert_spec (attendance_entries s1 c) date st2 t2 \<and>
     (entries_on date (attendance_entries student c) = [] \<longrightarrow>
        attendance_entries s1 c = attendance_entries student c @
          [JObj [(''date'', JStr date), (''status'', JStr st1), (''time'', JStr t1)]]) \<and>
     (entries_on date (attendance_entries student c) \<noteq> [] \<longrightarrow>
        length (attendance_entries s1 c) = length (attendance_entries student c)) \<and>
     length (attendance_entries s2 c) = length (attendance_entries s1 c) \<and>
     (length (entries_on date (attendance_entries student c)) \<le> 1 \<longrightarrow>
        (\<exists>e. entries_on date (attendance_entries s2 c) = [JObj e] \<and>
             map_of e ''date'' = Some (JStr date) \<and>
             map_of e ''status'' = Some (JStr st2) \<and>
             map_of e ''time'' = Some (JStr t2)))"
proof -
  from mark_attendance_entries[OF ok, of date st1 t1] obtain s1 where
    s1: "mark_attendance student c date st1 t1 = Inr s1" "attendance_ok s1 c"
      "attendance_entries s1 c = upsert_spec (attendance_entries student c) date st1 t1"
    by blast
  from mark_attendance_entries[OF s1(2), of date st2 t2] obtain s2 where
    s2: "mark_attendance s1 c date st2 t2 = Inr s2"
      "attendance_entries s2 c = upsert_spec (attendance_entries s1 c) date st2 t2"
    by blast
  let ?rs = "attendance_entries student c"
  have e0: "list_all is_entry ?rs"
    using ok by (auto simp: attendance_ok_def attendance_entries_def py_getitem_def
        split: json.splits option.splits)
  have e1: "list_all is_entry (attendance_entries s1 c)"
    using e0 s1(3) by (simp add: upsert_spec_is_entry)
  have on1: "entries_on date (attendance_entries s1 c) \<noteq> []"
    using upsert_spec_entries_on[OF e0, of date st1 t1] s1(3)
    by (auto split: list.splits)
  have len2: "length (attendance_entries s2 c) = length (attendance_entries s1 c)"
    using on1 s2(2) by (simp add: upsert_spec_length)
  have one: "\<exists>e. entries_on date (attendance_entries s2 c) = [JObj e] \<and>
             map_of e ''date'' = Some (JStr date) \<and>
             map_of e ''status'' = Some (JStr st2) \<and>
             map_of e ''time'' = Some (JStr t2)"
    if le: "length (entries_on date ?rs) \<le> 1"
  proof -
    have "\<exists>r. entries_on date (attendance_entries s1 c) = [r]"
      using upsert_spec_entries_on[OF e0, of date st1 t1] s1(3) le
      by (auto split: list.splits)
    then obtain r where r: "entries_on date (attendance_entries s1 c) = [r]" by blast
    then have "r \<in> set (entries_on date (attendance_entries s1 c))" by simp
    then have rin: "r \<in> set (attendance_entries s1 c)" "py_getitem r ''date'' = Inr (JStr date)"
      by (auto simp: entries_on_def)
    with e1 obtain e where e: "r = JObj e" "map_of e ''date'' = Some (JStr date)"
      by (auto simp: list_all_iff is_entry_def py_getitem_def split: json.splits option.splits)
    from upsert_spec_entries_on[OF e1, of date st2 t2] s2(2) r e
    show ?thesis by (simp add: update_conv')
  qed
  from s1 s2 len2 one show ?thesis
    by (auto simp: upsert_spec_none upsert_spec_length)
qed

theorem mark_attendance_upsert_witness:
  "\<exists>s1 s2.
     mark_attendance (JObj [(''name'', JStr ''A''), (''roll_no'', JStr ''1'')])
        ''CS101'' ''2024-01-01'' ''Present'' ''10:00:00'' = Inr s1 \<and>
     mark_attendance s1 ''CS101'' ''2024-01-01'' ''Absent'' ''11:00:00'' = Inr s2 \<and>
     attendance_entries s2 ''CS101'' =
       [JObj [(''date'', JStr ''2024-01-01''), (''status'', JStr ''Absent''),
              (''time'', JStr ''11:00:00'')]]"
proof -
  let ?s = "JObj [(''name'', JStr ''A''), (''roll_no'', JStr ''1'')]"
  have ok: "attendance_ok ?s ''CS101''" by (simp add: attendance_ok_def)
  have none: "attendance_entries ?s ''CS101'' = []"
    by (simp add: attendance_entries_def py_getitem_def)
  from mark_attendance_upsert[OF ok, of "''2024-01-01''" "''Present''" "''10:00:00''"
      "''Absent''" "''11:00:00''"]
  obtain s1 s2 where
    "mark_attendance ?s ''CS101'' ''2024-01-01'' ''Present'' ''10:00:00'' = Inr s1"
    "mark_attendance s1 ''CS101'' ''2024-01-01'' ''Absent'' ''11:00:00'' = Inr s2"
    "attendance_entries s1 ''CS101'' =
       upsert_spec (attendance_entries ?s ''CS101'') ''2024-01-01'' ''Present'' ''10:00:00''"
    "attendance_entries s2 ''CS101'' =
       upsert_spec (attendance_entries s1 ''CS101'') ''2024-01-01'' ''Absent'' ''11:00:00''"
    by blast
  then show ?thesis by (intro exI[of _ s1] exI[of _ s2]) (simp add: none py_getitem_def)
qed

subsection \<open>Updating marks\<close>

lemma backfill_record_unchanged:
  "backfill_record sf s = Inr (s', False) \<Longrightarrow> s' = s"
  by (auto simp: backfill_record_def then_do_def split: sum.splits if_splits)

lemma backfill_loop_flag: "backfill_loop sf xs r = Inr (xs', r') \<Longrightarrow> r \<Longrightarrow> r'"
  by (induction xs arbitrary: r xs' r') (auto simp: then_do_def split: sum.splits prod.splits)

lemma backfill_loop_unchanged:
  "backfill_loop sf xs r = Inr (xs', False) \<Longrightarrow> xs' = xs"
proof (induction xs arbitrary: r xs')
  case Nil
  then show ?case by simp
next
  case (Cons s xs)
  from Cons.prems obtain s1 r1 rest where
    s1: "backfill_record sf s = Inr (s1, r1)"
    and rest: "backfill_loop sf xs (r \<or> r1) = Inr (rest, False)"
    and xs': "xs' = s1 # rest"
    by (auto simp: then_do_def split: sum.splits prod.splits)
  from backfill_loop_flag[OF rest] have "\<not> r1" by auto
  with s1 have "s1 = s" by (auto dest: backfill_record_unchanged)
  with Cons.IH[OF rest] xs' show ?case by simp
qed

lemma load_students_stored:
  assumes "load_students sf f = (f1, Inr (JArr xs))" and "xs \<noteq> []"
  shows "f1 = Content (JArr xs)"
proof (cases f)
  case Absent
  with assms show ?thesis
    by (simp add: load_students_def init_data_file_def py_iter_def then_do_def Let_def)
next
  case Unparseable
  with assms show ?thesis
    by (simp add: load_students_def init_data_file_def py_iter_def then_do_def Let_def)
next
  case (Content v)
  with assms show ?thesis
    by (auto simp: load_students_def init_data_file_def py_iter_def then_do_def Let_def
        save_students_def split: json.splits sum.splits prod.splits if_splits
        dest: backfill_loop_unchanged)
qed

lemma student_options_dicts:
  "\<forall>d\<in>set ds. map_of d ''roll_no'' \<noteq> None \<and> map_of d ''name'' \<noteq> None \<Longrightarrow>
   \<exists>opts. student_options (map JObj ds) = Inr opts"
  by (induction ds) (auto simp: then_do_def py_getitem_def)

lemma update_present_keys:
  "map_of d k \<noteq> None \<Longrightarrow> map fst (AList.update k v d) = map fst d"
  by (simp add: update_keys map_of_eq_None_iff)

text \<open>
  C10. When \<^verbatim>\<open>update_student_marks\<close> changes a student's marks and saves, the saved
  collection is the collection that was loaded (which is what the file held at that
  moment) with one record replaced, the first one carrying the chosen roll number: the
  length and the order are the same, every other record is the same, and in the replaced
  record the marks are the new marks, the grade is their grade, the keys are the same in
  the same order and every key other than marks and grade has the value it had.
\<close>

theorem update_student_marks_frame:
  assumes load: "load_students sf f = (f1, Inr (JArr (map JObj ds)))"
    and keys: "\<forall>d\<in>set ds. map_of d ''roll_no'' \<noteq> None \<and> map_of d ''name'' \<noteq> None"
    and i: "i < length ds" "map_of (ds ! i) ''roll_no'' = Some (JStr r)"
      "\<forall>j<i. map_of (ds ! j) ''roll_no'' \<noteq> Some (JStr r)"
    and marks: "map_of (ds ! i) ''marks'' = Some mv" "py_float sf mv = Inr shown"
    and grade: "map_of (ds ! i) ''grade'' = Some g"
    and changed: "\<not> py_eq_float new_marks mv"
  shows "\<exists>d'. f1 = Content (JArr (map JObj ds)) \<and>
     update_student_marks sf r new_marks f =
       (Content (JArr (map JObj (ds[i := d']))), Inr MarksUpdated) \<and>
     map_of d' ''marks'' = Some (JNum new_marks) \<and>
     map_of d' ''grade'' = Some (JStr (calculate_grade new_marks)) \<and>
     map fst d' = map fst (ds ! i) \<and>
     (\<forall>k. k \<noteq> ''marks'' \<and> k \<noteq> ''grade'' \<longrightarrow> map_of d' k = map_of (ds ! i) k) \<and>
     length (ds[i := d']) = length ds \<and>
     (\<forall>j<length ds. j \<noteq> i \<longrightarrow> ds[i := d'] ! j = ds ! j)"
proof -
  let ?d = "ds ! i"
  let ?d' = "AList.update ''grade'' (JStr (calculate_grade new_marks))
               (AList.update ''marks'' (JNum new_marks) ?d)"
  from i(1) have ne: "map JObj ds \<noteq> []" by auto
  from load_students_stored[OF load ne] have f1: "f1 = Content (JArr (map JObj ds))" .
  from student_options_dicts[OF keys] obtain opts where
    opts: "student_options (map JObj ds) = Inr opts" by blast
  have ex: "\<exists>d\<in>set ds. map_of d ''roll_no'' = Some (JStr r)"
    using i(1,2) nth_mem by blast
  from find_roll_no_dicts_some[OF _ ex] keys obtain i' where
    i': "i' < length ds" "find_roll_no (map JObj ds) r = Inr (Some (i', JObj (ds ! i')))"
      "map_of (ds ! i') ''roll_no'' = Some (JStr r)"
      "\<forall>j<i'. map_of (ds ! j) ''roll_no'' \<noteq> Some (JStr r)"
    by auto
  have "i' = i"
    using i i' by (meson linorder_neqE_nat)
  with i' have found: "find_roll_no (map JObj ds) r = Inr (Some (i, JObj ?d))" by simp
  from i(1) keys obtain n where n: "map_of ?d ''name'' = Some n" by force
  have dne: "?d \<noteq> []" using n by auto
  have run: "update_student_marks sf r new_marks f =
       (Content (JArr (map JObj (ds[i := ?d']))), Inr MarksUpdated)"
    using load ne opts found n marks grade changed dne
    by (simp add: update_student_marks_def py_truthy_def py_iter_def then_do_def
        py_getitem_def py_setitem_def save_students_def map_update)
  have k1: "map fst ?d' = map fst ?d"
    using marks(1) grade by (simp add: update_present_keys update_conv')
  have k2: "\<forall>k. k \<noteq> ''marks'' \<and> k \<noteq> ''grade'' \<longrightarrow> map_of ?d' k = map_of ?d k"
    by (simp add: update_conv')
  have k3: "map_of ?d' ''marks'' = Some (JNum new_marks)"
    "map_of ?d' ''grade'' = Some (JStr (calculate_grade new_marks))"
    by (simp_all add: update_conv')
  show ?thesis
    by (rule exI[of _ ?d']) (use f1 run k1 k2 k3 in simp)
qed


theorem update_student_marks_frame_witness:
  "\<exists>d'. update_student_marks (\<lambda>t. None) ''S1'' 91
       (Content (JArr
          [JObj [(''name'', JStr ''A''), (''roll_no'', JStr ''S1''), (''marks'', JNum 55),
                 (''grade'', JStr ''F''), (''registered_courses'', JArr [])],
           JObj [(''name'', JStr ''B''), (''roll_no'', JStr ''S2''), (''marks'', JNum 70),
                 (''grade'', JStr ''C''), (''registered_courses'', JArr [])]])) =
     (Content (JArr
          [JObj d',
           JObj [(''name'', JStr ''B''), (''roll_no'', JStr ''S2''), (''marks'', JNum 70),
                 (''grade'', JStr ''C''), (''registered_courses'', JArr [])]]),
      Inr MarksUpdated) \<and>
     map_of d' ''marks'' = Some (JNum 91) \<and>
     map_of d' ''grade'' = Some (JStr ''A'') \<and>
     map fst d' = [''name'', ''roll_no'', ''marks'', ''grade'', ''registered_courses''] \<and>
     map_of d' ''name'' = Some (JStr ''A'') \<and>
     map_of d' ''roll_no'' = Some (JStr ''S1'') \<and>
     map_of d' ''registered_courses'' = Some (JArr [])"
proof -
  let ?a = "[(''name'', JStr ''A''), (''roll_no'', JStr ''S1''), (''marks'', JNum 55),
             (''grade'', JStr ''F''), (''registered_courses'', JArr [])]"
  let ?b = "[(''name'', JStr ''B''), (''roll_no'', JStr ''S2''), (''marks'', JNum 70),
             (''grade'', JStr ''C''), (''registered_courses'', JArr [])]"
  have load: "load_students (\<lambda>t. None) (Content (JArr (map JObj [?a, ?b]))) =
      (Content (JArr (map JObj [?a, ?b])), Inr (JArr (map JObj [?a, ?b])))"
    by code_simp
  have keys: "\<forall>d\<in>set [?a, ?b]. map_of d ''roll_no'' \<noteq> None \<and> map_of d ''name'' \<noteq> None"
    by simp
  have grade: "calculate_grade 91 = ''A''" by (simp add: calculate_grade_def)
  have i: "(0::nat) < length [?a, ?b]" "map_of ([?a, ?b] ! 0) ''roll_no'' = Some (JStr ''S1'')"
    "\<forall>j<(0::nat). map_of ([?a, ?b] ! j) ''roll_no'' \<noteq> Some (JStr ''S1'')"
    by simp_all
  have m: "map_of ([?a, ?b] ! 0) ''marks'' = Some (JNum 55)"
    "py_float (\<lambda>t. None) (JNum 55) = Inr 55"
    "map_of ([?a, ?b] ! 0) ''grade'' = Some (JStr ''F'')"
    "\<not> py_eq_float 91 (JNum 55)"
    by (simp_all add: py_float_def py_eq_float_def py_num_def)
  from update_student_marks_frame[OF load keys i m]
  obtain d' where d':
    "update_student_marks (\<lambda>t. None) ''S1'' 91 (Content (JArr (map JObj [?a, ?b]))) =
       (Content (JArr (map JObj ([?a, ?b][0 := d']))), Inr MarksUpdated)"
    "map_of d' ''marks'' = Some (JNum 91)"
    "map_of d' ''grade'' = Some (JStr (calculate_grade 91))"
    "map fst d' = map fst ([?a, ?b] ! 0)"
    "\<forall>k. k \<noteq> ''marks'' \<and> k \<noteq> ''grade'' \<longrightarrow> map_of d' k = map_of ([?a, ?b] ! 0) k"
    by blast
  from d'(5) have other: "map_of d' ''name'' = Some (JStr ''A'')"
    "map_of d' ''roll_no'' = Some (JStr ''S1'')"
    "map_of d' ''registered_courses'' = Some (JArr [])"
    by simp_all
  from d'(1,2,3,4) other grade show ?thesis
    by (intro exI[of _ d']) simp
qed

subsection \<open>Course grades\<close>


lemma then_do_Inl: "then_do (Inl e) f = Inl e"
  by (simp add: then_do_def)












subsection \<open>Grade and marks\<close>



















subsection \<open>Course registration\<close>
















end
